theory Spec2Isabelle
  imports Complex_Main
begin

section \<open>Data model of the maintenance-monitoring server\<close>

text \<open>
  The server keeps one JSON document \<open>{machines: [], vitals: []}\<close> in memory (\<open>db\<close>) and
  rewrites the file \<open>db.json\<close> from it after every mutation (\<open>saveDb\<close>).

  Conventions of the embedding:
  \<^item> a JavaScript number is a \<open>rat\<close> (JSON delivers decimal literals, never NaN), and
    arithmetic on it is exact; where \<open>parseInt\<close> can deliver NaN the value is an
    \<open>int option\<close> with \<open>None\<close> for NaN;
  \<^item> a date (an ISO string wrapped in \<open>new Date(...)\<close> before every use) is its time
    value, an \<open>int\<close> of milliseconds; \<open>null\<close> is \<open>None\<close>;
  \<^item> the fields of a machine and of its thresholds have the types the data model gives
    them: thresholds are numbers, names are strings;
  \<^item> a string is a list of 8-bit characters;
  \<^item> the clock (read once per handler), the generated id and the number-to-string
    conversion of template literals are inputs of each handler;
  \<^item> a synchronous handler is one step on the state; the ingestion of a vital is
    \<open>async\<close> and suspends at \<open>await sendAlertEmail(...)\<close>, so it is given both whole
    (\<open>post_vital\<close>, no other request running meanwhile) and split at the \<open>await\<close>
    (\<open>post_vital_begin\<close>, \<open>post_vital_end\<close>); writing the file succeeds;
  \<^item> every call of \<open>sendAlertEmail\<close> is recorded in the \<open>sent\<close> log of the state,
    whether the mail is delivered, simulated or dropped for want of a recipient.
\<close>

record thresholds =
  t_temperature :: rat
  t_vibration :: rat
  t_pressure :: rat

record machine =
  m_id :: string
  m_name :: string
  m_code :: string
  m_location :: string
  m_nextMaintenanceDate :: "int option"
  m_responsibleEmail :: string
  m_thresholds :: "thresholds option"
  m_lastMaintenanceReminderSent :: "int option"
  m_lastAbnormalAlertSent :: "int option"
  m_createdAt :: int

record vital =
  v_id :: string
  v_machineId :: string
  v_temperature :: "rat option"
  v_vibration :: "rat option"
  v_pressure :: "rat option"
  v_timestamp :: int

record database =
  machines :: "machine list"
  vitals :: "vital list"

text \<open>
  The two e-mails the server composes. Subject and text are template literals over the
  machine, the vital and the reasons (first kind) or over the machine and \<open>diffDays\<close>
  (second kind); the constructor keeps exactly these values.
\<close>

datatype email =
  AbnormalEmail machine vital "string list"
| MaintenanceEmail machine rat

record state =
  db :: database
  db_file :: database
  sent :: "email list"

text \<open>Values of a request body field, as far as \<open>typeof\<close> tells them apart.\<close>

datatype json = JNull | JBool bool | JNumber rat | JString string

datatype payload =
  MachineBody machine
| VitalList "vital list"
| VitalResult vital bool
| Object "(string \<times> json) list"
| NoBody

record response =
  status :: nat
  body :: payload

text \<open>\<open>process.env\<close>, restricted to the variables the handlers read.\<close>

record env =
  ABNORMAL_ALERT_MIN_GAP_MINUTES :: "string option"
  MAINTENANCE_LOOKAHEAD_DAYS :: "string option"

section \<open>Built-ins of the language\<close>

text \<open>\<open>v || d\<close> on an optional string: the empty string and \<open>undefined\<close> are falsy.\<close>

definition or_string :: "string option \<Rightarrow> string \<Rightarrow> string" where
  "or_string v d = (case v of None \<Rightarrow> d | Some s \<Rightarrow> if s = [] then d else s)"

definition isWhiteSpace :: "char \<Rightarrow> bool" where
  "isWhiteSpace c \<longleftrightarrow>
     c \<in> set [CHR 0x09, CHR 0x0A, CHR 0x0B, CHR 0x0C, CHR 0x0D, CHR 0x20, CHR 0xA0]"

definition isDigit :: "char \<Rightarrow> bool" where
  "isDigit c \<longleftrightarrow> c \<in> set ''0123456789''"

definition digit_value :: "char \<Rightarrow> int" where
  "digit_value c = int (of_char c) - 48"

definition digits_value :: "string \<Rightarrow> int" where
  "digits_value ds = foldl (\<lambda>n c. 10 * n + digit_value c) 0 ds"

text \<open>
  \<open>parseInt(str, 10)\<close>: leading white space is skipped, one sign is read, then the
  longest prefix of decimal digits; no digit gives NaN (\<open>None\<close>).
\<close>

definition parseInt :: "string \<Rightarrow> int option" where
  "parseInt str =
     (let S = dropWhile isWhiteSpace str;
          sign = (if take 1 S = ''-'' then - 1 else 1);
          S' = (if take 1 S = ''-'' \<or> take 1 S = ''+'' then drop 1 S else S);
          Z = takeWhile isDigit S'
      in if Z = [] then None else Some (sign * digits_value Z))"

text \<open>
  \<open>Array.prototype.slice(start)\<close>: NaN counts as 0, a negative start counts from the
  end, and the start is clamped to the array.
\<close>

definition slice_from :: "int option \<Rightarrow> 'a list \<Rightarrow> 'a list" where
  "slice_from start xs =
     (let len = int (length xs);
          relativeStart = (case start of None \<Rightarrow> 0 | Some i \<Rightarrow> i);
          k = (if relativeStart < 0 then max (len + relativeStart) 0 else min relativeStart len)
      in drop (nat k) xs)"

text \<open>
  \<open>Array.prototype.sort(comparefn)\<close> is a stable sort; with a comparator it places
  \<open>a\<close> before \<open>b\<close> when \<open>comparefn(a, b) \<le> 0\<close> and they are met in this order.
\<close>

fun insert_by :: "('a \<Rightarrow> 'a \<Rightarrow> int) \<Rightarrow> 'a \<Rightarrow> 'a list \<Rightarrow> 'a list" where
  "insert_by cmp x [] = [x]"
| "insert_by cmp x (y # ys) = (if cmp x y \<le> 0 then x # y # ys else y # insert_by cmp x ys)"

definition sort_by :: "('a \<Rightarrow> 'a \<Rightarrow> int) \<Rightarrow> 'a list \<Rightarrow> 'a list" where
  "sort_by cmp xs = foldr (insert_by cmp) xs []"

text \<open>\<open>Array.prototype.findIndex\<close>, with \<open>None\<close> for the result \<open>-1\<close>.\<close>

fun findIndex :: "('a \<Rightarrow> bool) \<Rightarrow> 'a list \<Rightarrow> nat option" where
  "findIndex P [] = None"
| "findIndex P (x # xs) = (if P x then Some 0 else map_option Suc (findIndex P xs))"

section \<open>The store\<close>

definition saveDb :: "state \<Rightarrow> state" where
  "saveDb s = s\<lparr>db_file := db s\<rparr>"

definition sendAlertEmail :: "email \<Rightarrow> state \<Rightarrow> state" where
  "sendAlertEmail e s = s\<lparr>sent := sent s @ [e]\<rparr>"

definition message :: "string \<Rightarrow> payload" where
  "message txt = Object [(''message'', JString txt)]"

definition default_thresholds :: thresholds where
  "default_thresholds = \<lparr>t_temperature = 80, t_vibration = 10, t_pressure = 200\<rparr>"

section \<open>GET /api/machines/:id/vitals\<close>

definition by_timestamp :: "vital \<Rightarrow> vital \<Rightarrow> int" where
  "by_timestamp a b = v_timestamp a - v_timestamp b"

definition get_vitals :: "string \<Rightarrow> string option \<Rightarrow> state \<Rightarrow> response \<times> state" where
  "get_vitals ident query_limit s =
     (let limit = parseInt (or_string query_limit ''50'');
          vs = slice_from (map_option uminus limit)
                 (sort_by by_timestamp
                    (filter (\<lambda>v. v_machineId v = ident) (vitals (db s))))
      in (\<lparr>status = 200, body = VitalList vs\<rparr>, s))"

section \<open>POST /api/machines\<close>

record create_request =
  c_name :: "string option"
  c_code :: "string option"
  c_location :: "string option"
  c_nextMaintenanceDate :: "int option"
  c_responsibleEmail :: "string option"
  c_thresholds :: "thresholds option"

text \<open>\<open>!v\<close> on an optional string.\<close>

definition falsy :: "string option \<Rightarrow> bool" where
  "falsy v \<longleftrightarrow> v = None \<or> v = Some []"

definition post_machine :: "int \<Rightarrow> string \<Rightarrow> create_request \<Rightarrow> state \<Rightarrow> response \<times> state" where
  "post_machine now new_id req s =
     (if falsy (c_name req) \<or> c_nextMaintenanceDate req = None then
        (\<lparr>status = 400, body = message ''name and nextMaintenanceDate are required''\<rparr>, s)
      else
        (let machine =
               \<lparr>m_id = new_id,
                m_name = the (c_name req),
                m_code = or_string (c_code req) [],
                m_location = or_string (c_location req) [],
                m_nextMaintenanceDate = c_nextMaintenanceDate req,
                m_responsibleEmail = or_string (c_responsibleEmail req) [],
                m_thresholds =
                  Some (case c_thresholds req of None \<Rightarrow> default_thresholds | Some t \<Rightarrow> t),
                m_lastMaintenanceReminderSent = None,
                m_lastAbnormalAlertSent = None,
                m_createdAt = now\<rparr>;
             s1 = s\<lparr>db := (db s)\<lparr>machines := machines (db s) @ [machine]\<rparr>\<rparr>
         in (\<lparr>status = 201, body = MachineBody machine\<rparr>, saveDb s1)))"

section \<open>PUT /api/machines/:id\<close>

text \<open>
  The request body of an update: every field of a machine may be present
  (\<open>Some\<close>) or absent; a present nullable field may itself be \<open>null\<close>.
\<close>

record patch =
  p_id :: "string option"
  p_name :: "string option"
  p_code :: "string option"
  p_location :: "string option"
  p_nextMaintenanceDate :: "int option option"
  p_responsibleEmail :: "string option"
  p_thresholds :: "thresholds option option"
  p_lastMaintenanceReminderSent :: "int option option"
  p_lastAbnormalAlertSent :: "int option option"
  p_createdAt :: "int option"

definition override :: "'a \<Rightarrow> 'a option \<Rightarrow> 'a" where
  "override old new = (case new of None \<Rightarrow> old | Some v \<Rightarrow> v)"

text \<open>The object spread \<open>{...machine, ...req.body}\<close>.\<close>

definition spread :: "machine \<Rightarrow> patch \<Rightarrow> machine" where
  "spread m p =
     \<lparr>m_id = override (m_id m) (p_id p),
      m_name = override (m_name m) (p_name p),
      m_code = override (m_code m) (p_code p),
      m_location = override (m_location m) (p_location p),
      m_nextMaintenanceDate = override (m_nextMaintenanceDate m) (p_nextMaintenanceDate p),
      m_responsibleEmail = override (m_responsibleEmail m) (p_responsibleEmail p),
      m_thresholds = override (m_thresholds m) (p_thresholds p),
      m_lastMaintenanceReminderSent =
        override (m_lastMaintenanceReminderSent m) (p_lastMaintenanceReminderSent p),
      m_lastAbnormalAlertSent = override (m_lastAbnormalAlertSent m) (p_lastAbnormalAlertSent p),
      m_createdAt = override (m_createdAt m) (p_createdAt p)\<rparr>"

definition put_machine :: "string \<Rightarrow> patch \<Rightarrow> state \<Rightarrow> response \<times> state" where
  "put_machine ident req s =
     (case findIndex (\<lambda>m. m_id m = ident) (machines (db s)) of
        None \<Rightarrow> (\<lparr>status = 404, body = message ''Machine not found''\<rparr>, s)
      | Some idx \<Rightarrow>
          (let updated = (spread (machines (db s) ! idx) req)\<lparr>m_id := ident\<rparr>;
               s1 = s\<lparr>db := (db s)\<lparr>machines := (machines (db s))[idx := updated]\<rparr>\<rparr>
           in (\<lparr>status = 200, body = MachineBody (machines (db s1) ! idx)\<rparr>, saveDb s1)))"

section \<open>DELETE /api/machines/:id\<close>

text \<open>\<open>array.splice(idx, 1)\<close> for an index inside the array.\<close>

definition splice1 :: "nat \<Rightarrow> 'a list \<Rightarrow> 'a list" where
  "splice1 idx xs = take idx xs @ drop (Suc idx) xs"

definition delete_machine :: "string \<Rightarrow> state \<Rightarrow> response \<times> state" where
  "delete_machine ident s =
     (case findIndex (\<lambda>m. m_id m = ident) (machines (db s)) of
        None \<Rightarrow> (\<lparr>status = 404, body = message ''Machine not found''\<rparr>, s)
      | Some idx \<Rightarrow>
          (let s1 = s\<lparr>db := (db s)\<lparr>machines := splice1 idx (machines (db s))\<rparr>\<rparr>;
               s2 = s1\<lparr>db := (db s1)\<lparr>vitals :=
                      filter (\<lambda>v. v_machineId v \<noteq> ident) (vitals (db s1))\<rparr>\<rparr>
           in (\<lparr>status = 204, body = NoBody\<rparr>, saveDb s2)))"

section \<open>POST /api/machines/:id/vitals\<close>

record vital_request =
  q_temperature :: "json option"
  q_vibration :: "json option"
  q_pressure :: "json option"
  q_timestamp :: "int option"

text \<open>\<open>typeof x === 'number' ? x : null\<close>\<close>

definition number_or_null :: "json option \<Rightarrow> rat option" where
  "number_or_null x = (case x of Some (JNumber n) \<Rightarrow> Some n | _ \<Rightarrow> None)"

text \<open>The degree sign of the temperature reason, one UTF-16 code unit.\<close>

definition degree :: string where
  "degree = [CHR 0xB0]"

text \<open>
  The three checks of the handler. Each works on the pair of the \<open>abnormal\<close> flag and
  the \<open>reasons\<close> array; \<open>str\<close> is the conversion of a number inside a template literal.
\<close>

definition check_temperature ::
  "(rat \<Rightarrow> string) \<Rightarrow> vital \<Rightarrow> thresholds \<Rightarrow> bool \<times> string list \<Rightarrow> bool \<times> string list" where
  "check_temperature str vital th acc =
     (case v_temperature vital of
        None \<Rightarrow> acc
      | Some x \<Rightarrow>
          if x > t_temperature th then
            (True, snd acc @
               [''Temperature '' @ str x @ degree @ ''C > '' @ str (t_temperature th) @ degree @ ''C''])
          else acc)"

definition check_vibration ::
  "(rat \<Rightarrow> string) \<Rightarrow> vital \<Rightarrow> thresholds \<Rightarrow> bool \<times> string list \<Rightarrow> bool \<times> string list" where
  "check_vibration str vital th acc =
     (case v_vibration vital of
        None \<Rightarrow> acc
      | Some x \<Rightarrow>
          if x > t_vibration th then
            (True, snd acc @
               [''Vibration '' @ str x @ ''mm/s > '' @ str (t_vibration th) @ ''mm/s''])
          else acc)"

definition check_pressure ::
  "(rat \<Rightarrow> string) \<Rightarrow> vital \<Rightarrow> thresholds \<Rightarrow> bool \<times> string list \<Rightarrow> bool \<times> string list" where
  "check_pressure str vital th acc =
     (case v_pressure vital of
        None \<Rightarrow> acc
      | Some x \<Rightarrow>
          if x > t_pressure th then
            (True, snd acc @
               [''Pressure '' @ str x @ ''bar > '' @ str (t_pressure th) @ ''bar''])
          else acc)"

definition evaluate :: "(rat \<Rightarrow> string) \<Rightarrow> vital \<Rightarrow> thresholds \<Rightarrow> bool \<times> string list" where
  "evaluate str vital th =
     check_pressure str vital th
       (check_vibration str vital th
          (check_temperature str vital th (False, [])))"

text \<open>\<open>(now - lastAlert) / (1000 * 60) > minGapMinutes\<close>, false when the gap is NaN.\<close>

definition gap_exceeded :: "int \<Rightarrow> int \<Rightarrow> int option \<Rightarrow> bool" where
  "gap_exceeded now lastAlert minGapMinutes =
     (case minGapMinutes of
        None \<Rightarrow> False
      | Some g \<Rightarrow> (of_int (now - lastAlert) :: rat) / (1000 * 60) > of_int g)"

text \<open>
  The handler looks the machine up with \<open>find\<close> and later assigns to a field of the
  object found; here the machine is read at the index of the first match and written
  back there. \<open>post_vital\<close> is the handler from request to response when nothing else
  runs while it awaits the mail.
\<close>

definition post_vital ::
  "(rat \<Rightarrow> string) \<Rightarrow> env \<Rightarrow> int \<Rightarrow> string \<Rightarrow> string \<Rightarrow> vital_request \<Rightarrow> state
     \<Rightarrow> response \<times> state" where
  "post_vital str ev now new_id ident req s =
     (case findIndex (\<lambda>m. m_id m = ident) (machines (db s)) of
        None \<Rightarrow> (\<lparr>status = 404, body = message ''Machine not found''\<rparr>, s)
      | Some idx \<Rightarrow>
          (let machine = machines (db s) ! idx;
               vital =
                 \<lparr>v_id = new_id,
                  v_machineId = ident,
                  v_temperature = number_or_null (q_temperature req),
                  v_vibration = number_or_null (q_vibration req),
                  v_pressure = number_or_null (q_pressure req),
                  v_timestamp = (case q_timestamp req of None \<Rightarrow> now | Some t \<Rightarrow> t)\<rparr>;
               s1 = s\<lparr>db := (db s)\<lparr>vitals := vitals (db s) @ [vital]\<rparr>\<rparr>;
               th = (case m_thresholds machine of None \<Rightarrow> default_thresholds | Some t \<Rightarrow> t);
               (abnormal, reasons) = evaluate str vital th;
               s2 =
                 (if abnormal then
                    (let lastAlert = m_lastAbnormalAlertSent machine;
                         minGapMinutes =
                           parseInt (or_string (ABNORMAL_ALERT_MIN_GAP_MINUTES ev) ''30'')
                     in if lastAlert = None \<or> gap_exceeded now (the lastAlert) minGapMinutes then
                          (let s' = sendAlertEmail (AbnormalEmail machine vital reasons) s1
                           in s'\<lparr>db := (db s')\<lparr>machines :=
                                (machines (db s'))
                                  [idx := machine\<lparr>m_lastAbnormalAlertSent := Some now\<rparr>]\<rparr>\<rparr>)
                        else s1)
                  else s1)
           in (\<lparr>status = 201, body = VitalResult vital abnormal\<rparr>, saveDb s2)))"

text \<open>
  The same handler split at \<open>await sendAlertEmail(subject, text)\<close>. When the mail goes
  through a configured transport the \<open>await\<close> hands control back to the event loop and
  other requests are served before the handler continues. What the handler keeps
  across the \<open>await\<close> is the machine object found, the vital, the flag and the clock
  reading \<open>now\<close>. The first half ends either with the response (unknown machine, or no
  mail to send) or suspended after the call of \<open>sendAlertEmail\<close>; the second half
  stamps \<open>lastAbnormalAlertSent\<close> on the machine object, saves and responds. The object
  is addressed by its position in \<open>db.machines\<close>, which ingestions of vitals never
  change.
\<close>

record pending =
  k_idx :: nat
  k_vital :: vital
  k_abnormal :: bool
  k_now :: int

datatype progress = Responded response | Awaiting pending

definition post_vital_begin ::
  "(rat \<Rightarrow> string) \<Rightarrow> env \<Rightarrow> int \<Rightarrow> string \<Rightarrow> string \<Rightarrow> vital_request \<Rightarrow> state
     \<Rightarrow> progress \<times> state" where
  "post_vital_begin str ev now new_id ident req s =
     (case findIndex (\<lambda>m. m_id m = ident) (machines (db s)) of
        None \<Rightarrow> (Responded \<lparr>status = 404, body = message ''Machine not found''\<rparr>, s)
      | Some idx \<Rightarrow>
          (let machine = machines (db s) ! idx;
               vital =
                 \<lparr>v_id = new_id,
                  v_machineId = ident,
                  v_temperature = number_or_null (q_temperature req),
                  v_vibration = number_or_null (q_vibration req),
                  v_pressure = number_or_null (q_pressure req),
                  v_timestamp = (case q_timestamp req of None \<Rightarrow> now | Some t \<Rightarrow> t)\<rparr>;
               s1 = s\<lparr>db := (db s)\<lparr>vitals := vitals (db s) @ [vital]\<rparr>\<rparr>;
               th = (case m_thresholds machine of None \<Rightarrow> default_thresholds | Some t \<Rightarrow> t);
               (abnormal, reasons) = evaluate str vital th;
               lastAlert = m_lastAbnormalAlertSent machine;
               minGapMinutes = parseInt (or_string (ABNORMAL_ALERT_MIN_GAP_MINUTES ev) ''30'')
           in if abnormal \<and> (lastAlert = None \<or> gap_exceeded now (the lastAlert) minGapMinutes)
              then (Awaiting \<lparr>k_idx = idx, k_vital = vital, k_abnormal = abnormal, k_now = now\<rparr>,
                    sendAlertEmail (AbnormalEmail machine vital reasons) s1)
              else (Responded \<lparr>status = 201, body = VitalResult vital abnormal\<rparr>, saveDb s1)))"

definition post_vital_end :: "pending \<Rightarrow> state \<Rightarrow> response \<times> state" where
  "post_vital_end k s =
     (let machine = machines (db s) ! k_idx k;
          s' = s\<lparr>db := (db s)\<lparr>machines :=
                 (machines (db s))
                   [k_idx k := machine\<lparr>m_lastAbnormalAlertSent := Some (k_now k)\<rparr>]\<rparr>\<rparr>
      in (\<lparr>status = 201, body = VitalResult (k_vital k) (k_abnormal k)\<rparr>, saveDb s'))"

text \<open>
  Two ingestions for the same machine, the second request served while the first
  awaits its mail: first half of the first, first half of the second, then the two
  second halves. A half that has responded already has no second half.
\<close>

definition post_vital_overlapped ::
  "(rat \<Rightarrow> string) \<Rightarrow> env \<Rightarrow> string
     \<Rightarrow> int \<Rightarrow> string \<Rightarrow> vital_request \<Rightarrow> int \<Rightarrow> string \<Rightarrow> vital_request
     \<Rightarrow> state \<Rightarrow> state" where
  "post_vital_overlapped str ev ident now new_id req later next_id req' s =
     (case post_vital_begin str ev now new_id ident req s of
        (Responded res, sa) \<Rightarrow> snd (post_vital str ev later next_id ident req' sa)
      | (Awaiting k, sa) \<Rightarrow>
          (case post_vital_begin str ev later next_id ident req' sa of
             (Responded res', sb) \<Rightarrow> snd (post_vital_end k sb)
           | (Awaiting k', sb) \<Rightarrow> snd (post_vital_end k' (snd (post_vital_end k sb)))))"

section \<open>The maintenance reminder loop\<close>

text \<open>
  The body of the \<open>forEach\<close> callback for one machine: the machine after the callback
  and the e-mails it hands to \<open>sendAlertEmail\<close>. The assignment to the undeclared
  \<open>diffDaysMessage\<close> for an overdue machine has no effect on either.
\<close>

definition check_machine :: "int option \<Rightarrow> int \<Rightarrow> machine \<Rightarrow> machine \<times> email list" where
  "check_machine lookaheadDays now machine =
     (case m_nextMaintenanceDate machine of
        None \<Rightarrow> (machine, [])
      | Some due \<Rightarrow>
          (let diffDays = (of_int (due - now) :: rat) / (1000 * 60 * 60 * 24)
           in if (case lookaheadDays of None \<Rightarrow> False | Some l \<Rightarrow> diffDays \<le> of_int l) then
                (let lastSent = m_lastMaintenanceReminderSent machine
                 in if lastSent = None
                       \<or> (of_int (now - the lastSent) :: rat) / (1000 * 60 * 60 * 24) \<ge> 1 then
                      (machine\<lparr>m_lastMaintenanceReminderSent := Some now\<rparr>,
                       [MaintenanceEmail machine diffDays])
                    else (machine, []))
              else (machine, [])))"

fun sweep :: "int option \<Rightarrow> int \<Rightarrow> machine list \<Rightarrow> machine list \<times> email list" where
  "sweep lookaheadDays now [] = ([], [])"
| "sweep lookaheadDays now (m # ms) =
     (let (m', es) = check_machine lookaheadDays now m;
          (ms', es') = sweep lookaheadDays now ms
      in (m' # ms', es @ es'))"

definition checkUpcomingMaintenance :: "env \<Rightarrow> int \<Rightarrow> state \<Rightarrow> state" where
  "checkUpcomingMaintenance ev now s =
     (let lookaheadDays = parseInt (or_string (MAINTENANCE_LOOKAHEAD_DAYS ev) ''7'');
          (ms, es) = sweep lookaheadDays now (machines (db s))
      in saveDb (s\<lparr>db := (db s)\<lparr>machines := ms\<rparr>, sent := sent s @ es\<rparr>))"

section \<open>GET /api/health\<close>

definition get_health :: "state \<Rightarrow> response \<times> state" where
  "get_health s =
     (\<lparr>status = 200,
       body = Object [(''status'', JString ''ok''),
                      (''machines'', JNumber (of_nat (length (machines (db s)))))]\<rparr>, s)"

section \<open>The reminder decision as the specification words it\<close>

text \<open>
  A reminder is due for a machine with a maintenance date when the date is at most
  \<open>lookahead\<close> days away (a date in the past included) and no reminder was sent yet or
  the last one was sent at least one full day ago. Times are in milliseconds, a day
  is 86400000 of them; a lookahead that is not a number admits no machine.
\<close>

definition spec_reminder_due :: "int option \<Rightarrow> int \<Rightarrow> machine \<Rightarrow> bool" where
  "spec_reminder_due lookahead now m \<longleftrightarrow>
     (case m_nextMaintenanceDate m of
        None \<Rightarrow> False
      | Some due \<Rightarrow>
          (case lookahead of None \<Rightarrow> False | Some days \<Rightarrow> due - now \<le> days * 86400000)
          \<and> (case m_lastMaintenanceReminderSent m of
                None \<Rightarrow> True
              | Some t \<Rightarrow> now - t \<ge> 86400000))"

section \<open>Reading a response, and example data\<close>

text \<open>The property \<open>key\<close> of a response body that is a plain object.\<close>

definition property :: "string \<Rightarrow> payload \<Rightarrow> json option" where
  "property key p = (case p of Object kvs \<Rightarrow> map_of kvs key | _ \<Rightarrow> None)"

text \<open>
  The decimal form of a natural number, and with it the number-to-string conversion on
  integers of magnitude below \<open>10^21\<close>, where template literals print plain decimal
  digits. The examples pass it as \<open>str\<close> and render only such integers; on other
  numbers it is not the conversion of the language.
\<close>

fun digits :: "nat \<Rightarrow> string" where
  "digits n =
     (if n < 10 then [''0123456789'' ! n]
      else digits (n div 10) @ [''0123456789'' ! (n mod 10)])"

definition integer_string :: "rat \<Rightarrow> string" where
  "integer_string x =
     (if x < 0 then ''-'' @ digits (nat (- \<lfloor>x\<rfloor>)) else digits (nat \<lfloor>x\<rfloor>))"

definition vital_a :: vital where
  "vital_a = \<lparr>v_id = ''va'', v_machineId = ''m1'', v_temperature = Some 90, v_vibration = None,
     v_pressure = None, v_timestamp = 2000\<rparr>"

definition vital_b :: vital where
  "vital_b = \<lparr>v_id = ''vb'', v_machineId = ''m1'', v_temperature = Some 70, v_vibration = Some 4,
     v_pressure = None, v_timestamp = 1000\<rparr>"

definition vital_c :: vital where
  "vital_c = \<lparr>v_id = ''vc'', v_machineId = ''m2'', v_temperature = None, v_vibration = None,
     v_pressure = Some 150, v_timestamp = 1500\<rparr>"

definition machine_1 :: machine where
  "machine_1 = \<lparr>m_id = ''m1'', m_name = ''Press'', m_code = ''P-1'', m_location = ''Hall A'',
     m_nextMaintenanceDate = Some 864000000, m_responsibleEmail = [],
     m_thresholds = Some default_thresholds, m_lastMaintenanceReminderSent = None,
     m_lastAbnormalAlertSent = None, m_createdAt = 0\<rparr>"

definition machine_2 :: machine where
  "machine_2 = \<lparr>m_id = ''m2'', m_name = ''Lathe'', m_code = [], m_location = [],
     m_nextMaintenanceDate = Some 86400000, m_responsibleEmail = [],
     m_thresholds = None, m_lastMaintenanceReminderSent = Some 0,
     m_lastAbnormalAlertSent = None, m_createdAt = 0\<rparr>"

definition example_db :: database where
  "example_db = \<lparr>machines = [machine_1, machine_2], vitals = [vital_a, vital_b, vital_c]\<rparr>"

definition example_state :: state where
  "example_state = \<lparr>db = example_db, db_file = example_db, sent = []\<rparr>"

definition request_no_name :: create_request where
  "request_no_name = \<lparr>c_name = None, c_code = Some ''P-2'', c_location = None,
     c_nextMaintenanceDate = Some 864000000, c_responsibleEmail = None, c_thresholds = None\<rparr>"

definition request_drill :: create_request where
  "request_drill = \<lparr>c_name = Some ''Drill'', c_code = None, c_location = Some ''Hall B'',
     c_nextMaintenanceDate = Some 864000000, c_responsibleEmail = None, c_thresholds = None\<rparr>"

definition patch_relocate :: patch where
  "patch_relocate = \<lparr>p_id = Some ''other'', p_name = None, p_code = None,
     p_location = Some ''Hall C'', p_nextMaintenanceDate = None, p_responsibleEmail = None,
     p_thresholds = Some None, p_lastMaintenanceReminderSent = None,
     p_lastAbnormalAlertSent = None, p_createdAt = None\<rparr>"

definition env_default :: env where
  "env_default = \<lparr>ABNORMAL_ALERT_MIN_GAP_MINUTES = None, MAINTENANCE_LOOKAHEAD_DAYS = None\<rparr>"

definition request_hot :: vital_request where
  "request_hot = \<lparr>q_temperature = Some (JNumber 90), q_vibration = Some (JString ''12''),
     q_pressure = None, q_timestamp = None\<rparr>"

definition request_cool :: vital_request where
  "request_cool = \<lparr>q_temperature = Some (JNumber 70), q_vibration = None,
     q_pressure = Some (JNumber 200), q_timestamp = Some 500\<rparr>"

definition state_alerted :: state where
  "state_alerted =
     snd (post_vital integer_string env_default 600000 ''vd'' ''m1'' request_hot example_state)"

section \<open>Facts about the built-ins\<close>

lemmas parse_defs =
  or_string_def parseInt_def isWhiteSpace_def isDigit_def digits_value_def digit_value_def

lemmas example_defs =
  example_state_def example_db_def machine_1_def machine_2_def
  vital_a_def vital_b_def vital_c_def

lemma sort_by_sort_key: "sort_by by_timestamp xs = sort_key v_timestamp xs"
proof -
  have "insert_by by_timestamp x ys = insort_key v_timestamp x ys" for x ys
    by (induction ys) (simp_all add: by_timestamp_def)
  then show ?thesis
    unfolding sort_by_def sort_key_def by (induction xs) simp_all
qed

lemma slice_from_last:
  assumes "0 < n"
  shows "slice_from (Some (- n)) xs = drop (length xs - nat n) xs"
proof (cases "n \<le> int (length xs)")
  case True
  then have "nat (int (length xs) - n) = length xs - nat n"
    using assms by linarith
  with True assms show ?thesis
    by (simp add: slice_from_def Let_def max_def)
next
  case False
  then have "length xs - nat n = 0" by linarith
  with False assms show ?thesis
    by (simp add: slice_from_def Let_def max_def)
qed

lemma findIndex_None: "findIndex P xs = None \<longleftrightarrow> (\<forall>x\<in>set xs. \<not> P x)"
  by (induction xs) auto

lemma findIndex_Some:
  "findIndex P xs = Some i \<Longrightarrow> i < length xs \<and> P (xs ! i) \<and> (\<forall>x\<in>set (take i xs). \<not> P x)"
proof (induction xs arbitrary: i)
  case Nil
  then show ?case by simp
next
  case (Cons x xs)
  show ?case
  proof (cases "P x")
    case True
    with Cons.prems show ?thesis by simp
  next
    case False
    with Cons.prems obtain j where j: "findIndex P xs = Some j" "i = Suc j"
      by auto
    from Cons.IH[OF j(1)] False j(2) show ?thesis by simp
  qed
qed

lemma findIndex_split:
  assumes "findIndex P xs = Some i"
  shows "\<exists>pre x post. xs = pre @ x # post \<and> P x \<and> (\<forall>y\<in>set pre. \<not> P y)
           \<and> pre = take i xs \<and> x = xs ! i \<and> post = drop (Suc i) xs \<and> i < length xs"
  using findIndex_Some[OF assms] by (simp add: id_take_nth_drop[symmetric])

lemma findIndex_known: "\<exists>x\<in>set xs. P x \<Longrightarrow> \<exists>i. findIndex P xs = Some i"
  using findIndex_None[of P xs] by (cases "findIndex P xs") auto

lemma days_le: "(of_int a :: rat) / (1000 * 60 * 60 * 24) \<le> of_int d \<longleftrightarrow> a \<le> d * 86400000"
proof -
  have "(of_int a :: rat) / (1000 * 60 * 60 * 24) \<le> of_int d \<longleftrightarrow> (of_int a :: rat) \<le> of_int (d * 86400000)"
    by (simp add: divide_le_eq)
  then show ?thesis by (simp only: of_int_le_iff)
qed

lemma days_ge_one: "(of_int a :: rat) / (1000 * 60 * 60 * 24) \<ge> 1 \<longleftrightarrow> a \<ge> 86400000"
proof -
  have "(of_int a :: rat) / (1000 * 60 * 60 * 24) \<ge> 1 \<longleftrightarrow> (of_int a :: rat) \<ge> of_int 86400000"
    by (simp add: le_divide_eq)
  then show ?thesis by (simp only: of_int_le_iff)
qed

lemma parseInt_7: "parseInt (or_string None ''7'') = Some 7" by (simp add: parse_defs)
lemma parseInt_30: "parseInt (or_string None ''30'') = Some 30" by (simp add: parse_defs)

lemma findIndex_first:
  "P x \<Longrightarrow> \<forall>y\<in>set pre. \<not> P y \<Longrightarrow> findIndex P (pre @ x # post) = Some (length pre)"
  by (induction pre) simp_all

section \<open>Listing vitals\<close>

text \<open>
  For a limit that parses to a positive integer the listing is the tail of length at
  most \<open>n\<close> of the machine's vitals, in ascending order of time.
\<close>

lemma get_vitals_positive_limit:
  assumes "parseInt (or_string q ''50'') = Some n" and "0 < n"
    and "get_vitals ident q s = (res, s')"
    and "ys = sort_by by_timestamp (filter (\<lambda>v. v_machineId v = ident) (vitals (db s)))"
  shows "res = \<lparr>status = 200, body = VitalList (drop (length ys - nat n) ys)\<rparr>"
    and "set ys = {v \<in> set (vitals (db s)). v_machineId v = ident}"
    and "sorted (map v_timestamp (drop (length ys - nat n) ys))"
    and "int (length (drop (length ys - nat n) ys)) \<le> n"
    and "s' = s"
proof -
  show "res = \<lparr>status = 200, body = VitalList (drop (length ys - nat n) ys)\<rparr>"
    using assms by (auto simp add: get_vitals_def Let_def slice_from_last)
  show "set ys = {v \<in> set (vitals (db s)). v_machineId v = ident}"
    using assms(4) by (simp add: sort_by_sort_key)
  have "sorted (map v_timestamp ys)"
    using assms(4) by (simp add: sort_by_sort_key)
  then show "sorted (map v_timestamp (drop (length ys - nat n) ys))"
    by (simp add: drop_map[symmetric] sorted_wrt_drop)
  show "int (length (drop (length ys - nat n) ys)) \<le> n"
    using assms(2) by simp
  show "s' = s"
    using assms(3) by (simp add: get_vitals_def Let_def)
qed

text \<open>
  C3: listing the vitals of a machine with limit N returns the machine's vitals in
  ascending order of time, cut to the most recent N, and never more than N of them.
  The request \<open>?limit=0\<close> on a store that holds two vitals of machine \<open>m1\<close> shows the
  handler returning both: \<open>slice(-0)\<close> keeps the whole array.
\<close>

theorem limit_zero_returns_every_vital:
  "fst (get_vitals ''m1'' (Some ''0'') example_state)
     = \<lparr>status = 200, body = VitalList [vital_b, vital_a]\<rparr>"
  by (simp add: get_vitals_def example_defs parse_defs slice_from_def sort_by_def
      by_timestamp_def)

text \<open>
  C10: when the limit parameter is 0 or does not parse as an integer, \<open>slice\<close> is
  called with \<open>-0\<close> or NaN, behaves as \<open>slice(0)\<close>, and the handler returns every vital
  of the machine, in ascending order of time.
\<close>

theorem get_vitals_limit_zero_or_NaN:
  assumes "parseInt (or_string q ''50'') = None \<or> parseInt (or_string q ''50'') = Some 0"
  shows "slice_from (map_option uminus (parseInt (or_string q ''50''))) xs = slice_from (Some 0) xs
       \<and> get_vitals ident q s =
          (\<lparr>status = 200,
            body = VitalList (sort_by by_timestamp
                     (filter (\<lambda>v. v_machineId v = ident) (vitals (db s))))\<rparr>, s)"
  using assms by (auto simp add: get_vitals_def Let_def slice_from_def)

theorem get_vitals_limit_zero_or_NaN_witness:
  "parseInt (or_string (Some ''none'') ''50'') = None
   \<and> parseInt (or_string (Some ''0'') ''50'') = Some 0
   \<and> fst (get_vitals ''m1'' (Some ''none'') example_state)
       = \<lparr>status = 200, body = VitalList [vital_b, vital_a]\<rparr>
   \<and> fst (get_vitals ''m2'' (Some ''0'') example_state)
       = \<lparr>status = 200, body = VitalList [vital_c]\<rparr>
   \<and> length [vital_c] > 0"
proof -
  have n: "parseInt (or_string (Some ''none'') ''50'') = None"
    by (simp add: parse_defs)
  have z: "parseInt (or_string (Some ''0'') ''50'') = Some 0"
    by (simp add: parse_defs)
  have a: "sort_by by_timestamp
             (filter (\<lambda>v. v_machineId v = ''m1'') (vitals (db example_state)))
           = [vital_b, vital_a]"
    by (simp add: example_defs sort_by_def by_timestamp_def)
  have b: "sort_by by_timestamp
             (filter (\<lambda>v. v_machineId v = ''m2'') (vitals (db example_state)))
           = [vital_c]"
    by (simp add: example_defs sort_by_def by_timestamp_def)
  from get_vitals_limit_zero_or_NaN[of "Some ''none''" "[]::nat list" "''m1''" example_state] n
       get_vitals_limit_zero_or_NaN[of "Some ''0''" "[]::nat list" "''m2''" example_state] z a b
  show ?thesis by simp
qed

section \<open>Health check\<close>

text \<open>
  C9 as stated: the health response carries a field \<open>machineCount\<close> equal to the number
  of machines. On the example store, which holds two machines, the response has no
  such field.
\<close>

theorem get_health_machineCount_counterexample:
  "property ''machineCount'' (body (fst (get_health example_state)))
     \<noteq> Some (JNumber (of_nat (length (machines (db example_state)))))"
  by (simp add: get_health_def property_def)

text \<open>
  C9, amended: for every store the health check answers 200 with an object whose
  \<open>status\<close> field is \<open>ok\<close> and whose \<open>machines\<close> field is the number of machines in the
  store; the store is unchanged.
\<close>

theorem get_health_machines:
  "status (fst (get_health s)) = 200
   \<and> property ''status'' (body (fst (get_health s))) = Some (JString ''ok'')
   \<and> property ''machines'' (body (fst (get_health s)))
        = Some (JNumber (of_nat (length (machines (db s)))))
   \<and> snd (get_health s) = s"
  by (simp add: get_health_def property_def)

section \<open>Creating a machine\<close>

text \<open>
  C5: a creation request without \<open>name\<close> or without \<open>nextMaintenanceDate\<close> is answered
  with 400 and a message, and the store (memory and file) is unchanged.
\<close>

theorem post_machine_validation:
  assumes "c_name req = None \<or> c_nextMaintenanceDate req = None"
  shows "post_machine now new_id req s =
           (\<lparr>status = 400, body = message ''name and nextMaintenanceDate are required''\<rparr>, s)"
  using assms by (auto simp add: post_machine_def falsy_def)

theorem post_machine_validation_witness:
  "c_name request_no_name = None
   \<and> status (fst (post_machine 5 ''m3'' request_no_name example_state)) = 400
   \<and> property ''message'' (body (fst (post_machine 5 ''m3'' request_no_name example_state)))
        = Some (JString ''name and nextMaintenanceDate are required'')
   \<and> snd (post_machine 5 ''m3'' request_no_name example_state) = example_state"
proof -
  have h: "c_name request_no_name = None"
    by (simp add: request_no_name_def)
  then have "c_name request_no_name = None \<or> c_nextMaintenanceDate request_no_name = None" ..
  from post_machine_validation[OF this, of 5 "''m3''" example_state] h
  show ?thesis by (simp add: message_def property_def)
qed

text \<open>
  C6: a successful creation (status 201) returns the created record; its id is the
  generated id, both last-sent timestamps are \<open>null\<close>, and when the request has no
  \<open>thresholds\<close> the record has the thresholds 80, 10 and 200. The record is appended
  to the machines and the store is saved.
\<close>

theorem post_machine_created:
  assumes "post_machine now new_id req s = (res, s')" and "status res = 201"
  shows "\<exists>machine. res = \<lparr>status = 201, body = MachineBody machine\<rparr>
           \<and> m_id machine = new_id
           \<and> m_lastMaintenanceReminderSent machine = None
           \<and> m_lastAbnormalAlertSent machine = None
           \<and> (c_thresholds req = None \<longrightarrow>
                m_thresholds machine
                  = Some \<lparr>t_temperature = 80, t_vibration = 10, t_pressure = 200\<rparr>)
           \<and> machines (db s') = machines (db s) @ [machine]
           \<and> vitals (db s') = vitals (db s)
           \<and> db_file s' = db s'"
  using assms
  by (auto simp add: post_machine_def Let_def saveDb_def default_thresholds_def
      split: if_splits)

theorem post_machine_created_witness:
  "status (fst (post_machine 5 ''m3'' request_drill example_state)) = 201
   \<and> c_thresholds request_drill = None
   \<and> (\<exists>machine. body (fst (post_machine 5 ''m3'' request_drill example_state))
                   = MachineBody machine
         \<and> m_id machine = ''m3''
         \<and> m_thresholds machine
             = Some \<lparr>t_temperature = 80, t_vibration = 10, t_pressure = 200\<rparr>
         \<and> machines (db (snd (post_machine 5 ''m3'' request_drill example_state)))
              = [machine_1, machine_2, machine])"
proof -
  have st: "status (fst (post_machine 5 ''m3'' request_drill example_state)) = 201"
    by (simp add: post_machine_def request_drill_def falsy_def Let_def)
  have th: "c_thresholds request_drill = None"
    by (simp add: request_drill_def)
  have ms: "machines (db example_state) = [machine_1, machine_2]"
    by (simp add: example_state_def example_db_def)
  from post_machine_created[OF surjective_pairing st] th ms st
  show ?thesis by auto
qed

section \<open>Deleting a machine\<close>

text \<open>
  C4: deleting a known id removes the (first) machine with this id and exactly the
  vitals whose \<open>machineId\<close> is this id; the other machines and the other vitals stay as
  they are, in their order, and the store is saved. Deleting an unknown id is
  answered with 404 and changes nothing.
\<close>

theorem delete_machine_cascade:
  "(if \<exists>m\<in>set (machines (db s)). m_id m = ident then
      \<exists>pre m post.
         machines (db s) = pre @ m # post \<and> m_id m = ident \<and> (\<forall>x\<in>set pre. m_id x \<noteq> ident)
         \<and> delete_machine ident s =
             (\<lparr>status = 204, body = NoBody\<rparr>,
              s\<lparr>db := \<lparr>machines = pre @ post,
                        vitals = filter (\<lambda>v. v_machineId v \<noteq> ident) (vitals (db s))\<rparr>,
                db_file := \<lparr>machines = pre @ post,
                        vitals = filter (\<lambda>v. v_machineId v \<noteq> ident) (vitals (db s))\<rparr>\<rparr>)
    else delete_machine ident s = (\<lparr>status = 404, body = message ''Machine not found''\<rparr>, s))"
proof (cases "\<exists>m\<in>set (machines (db s)). m_id m = ident")
  case True
  then obtain i where i: "findIndex (\<lambda>m. m_id m = ident) (machines (db s)) = Some i"
    using findIndex_known[of "machines (db s)" "\<lambda>m. m_id m = ident"] by blast
  from findIndex_split[OF i] obtain pre m post where
    sp: "machines (db s) = pre @ m # post" "m_id m = ident" "\<forall>y\<in>set pre. m_id y \<noteq> ident"
        "pre = take i (machines (db s))" "post = drop (Suc i) (machines (db s))"
    by blast
  have "delete_machine ident s =
             (\<lparr>status = 204, body = NoBody\<rparr>,
              s\<lparr>db := \<lparr>machines = pre @ post,
                        vitals = filter (\<lambda>v. v_machineId v \<noteq> ident) (vitals (db s))\<rparr>,
                db_file := \<lparr>machines = pre @ post,
                        vitals = filter (\<lambda>v. v_machineId v \<noteq> ident) (vitals (db s))\<rparr>\<rparr>)"
    using i sp(4,5) by (simp add: delete_machine_def Let_def splice1_def saveDb_def)
  with sp(1,2,3) True show ?thesis by (simp only: if_True) blast
next
  case False
  then have "findIndex (\<lambda>m. m_id m = ident) (machines (db s)) = None"
    by (simp add: findIndex_None)
  with False show ?thesis by (simp add: delete_machine_def)
qed

theorem delete_machine_cascade_witness:
  "(\<exists>m\<in>set (machines (db example_state)). m_id m = ''m1'')
   \<and> delete_machine ''m1'' example_state =
       (\<lparr>status = 204, body = NoBody\<rparr>,
        \<lparr>db = \<lparr>machines = [machine_2], vitals = [vital_c]\<rparr>,
         db_file = \<lparr>machines = [machine_2], vitals = [vital_c]\<rparr>, sent = []\<rparr>)
   \<and> vitals (db (snd (delete_machine ''m1'' example_state))) = [vital_c]
   \<and> \<not> (\<exists>m\<in>set (machines (db example_state)). m_id m = ''m9'')
   \<and> delete_machine ''m9'' example_state =
       (\<lparr>status = 404, body = message ''Machine not found''\<rparr>, example_state)"
proof -
  have k: "\<exists>m\<in>set (machines (db example_state)). m_id m = ''m1''"
    by (simp add: example_defs)
  have u: "\<not> (\<exists>m\<in>set (machines (db example_state)). m_id m = ''m9'')"
    by (simp add: example_defs)
  have d: "delete_machine ''m1'' example_state =
       (\<lparr>status = 204, body = NoBody\<rparr>,
        \<lparr>db = \<lparr>machines = [machine_2], vitals = [vital_c]\<rparr>,
         db_file = \<lparr>machines = [machine_2], vitals = [vital_c]\<rparr>, sent = []\<rparr>)"
    by (simp add: delete_machine_def example_defs splice1_def saveDb_def)
  from k delete_machine_cascade[of example_state "''m1''"]
  obtain pre post where "delete_machine ''m1'' example_state =
       (\<lparr>status = 204, body = NoBody\<rparr>,
        example_state\<lparr>db := \<lparr>machines = pre @ post,
            vitals = filter (\<lambda>v. v_machineId v \<noteq> ''m1'') (vitals (db example_state))\<rparr>,
          db_file := \<lparr>machines = pre @ post,
            vitals = filter (\<lambda>v. v_machineId v \<noteq> ''m1'') (vitals (db example_state))\<rparr>\<rparr>)"
    by (simp only: if_True) blast
  then have v: "vitals (db (snd (delete_machine ''m1'' example_state))) = [vital_c]"
    by (simp add: example_defs)
  from delete_machine_cascade[of example_state "''m9''"] u k d v
  show ?thesis by simp
qed


section \<open>Updating a machine\<close>

text \<open>
  C7: updating an unknown id is answered with 404 and changes nothing. Updating a
  known id replaces the (first) machine with this id by the merge of its fields with
  the fields present in the request, field by field, except that the id stays what
  it was whatever the request says; the merged record is returned with status 200
  and the store is saved.
\<close>

theorem put_machine_merge:
  "(if \<exists>m\<in>set (machines (db s)). m_id m = ident then
      \<exists>pre old post new.
         machines (db s) = pre @ old # post \<and> m_id old = ident \<and> (\<forall>x\<in>set pre. m_id x \<noteq> ident)
         \<and> put_machine ident req s =
             (\<lparr>status = 200, body = MachineBody new\<rparr>,
              s\<lparr>db := \<lparr>machines = pre @ new # post, vitals = vitals (db s)\<rparr>,
                db_file := \<lparr>machines = pre @ new # post, vitals = vitals (db s)\<rparr>\<rparr>)
         \<and> m_id new = m_id old
         \<and> m_name new = (case p_name req of None \<Rightarrow> m_name old | Some v \<Rightarrow> v)
         \<and> m_code new = (case p_code req of None \<Rightarrow> m_code old | Some v \<Rightarrow> v)
         \<and> m_location new = (case p_location req of None \<Rightarrow> m_location old | Some v \<Rightarrow> v)
         \<and> m_nextMaintenanceDate new =
             (case p_nextMaintenanceDate req of None \<Rightarrow> m_nextMaintenanceDate old | Some v \<Rightarrow> v)
         \<and> m_responsibleEmail new =
             (case p_responsibleEmail req of None \<Rightarrow> m_responsibleEmail old | Some v \<Rightarrow> v)
         \<and> m_thresholds new = (case p_thresholds req of None \<Rightarrow> m_thresholds old | Some v \<Rightarrow> v)
         \<and> m_lastMaintenanceReminderSent new =
             (case p_lastMaintenanceReminderSent req of
                None \<Rightarrow> m_lastMaintenanceReminderSent old | Some v \<Rightarrow> v)
         \<and> m_lastAbnormalAlertSent new =
             (case p_lastAbnormalAlertSent req of
                None \<Rightarrow> m_lastAbnormalAlertSent old | Some v \<Rightarrow> v)
         \<and> m_createdAt new = (case p_createdAt req of None \<Rightarrow> m_createdAt old | Some v \<Rightarrow> v)
    else put_machine ident req s = (\<lparr>status = 404, body = message ''Machine not found''\<rparr>, s))"
proof (cases "\<exists>m\<in>set (machines (db s)). m_id m = ident")
  case True
  then obtain i where i: "findIndex (\<lambda>m. m_id m = ident) (machines (db s)) = Some i"
    using findIndex_known[of "machines (db s)" "\<lambda>m. m_id m = ident"] by blast
  from findIndex_split[OF i] obtain pre old post where
    sp: "machines (db s) = pre @ old # post" "m_id old = ident" "\<forall>y\<in>set pre. m_id y \<noteq> ident"
        "pre = take i (machines (db s))" "post = drop (Suc i) (machines (db s))"
        "old = machines (db s) ! i" "i < length (machines (db s))"
    by blast
  define new where "new = (spread old req)\<lparr>m_id := ident\<rparr>"
  have upd: "(machines (db s))[i := new] = pre @ new # post"
    using sp(4,5,7) by (simp add: upd_conv_take_nth_drop)
  have "put_machine ident req s =
             (\<lparr>status = 200, body = MachineBody new\<rparr>,
              s\<lparr>db := \<lparr>machines = pre @ new # post, vitals = vitals (db s)\<rparr>,
                db_file := \<lparr>machines = pre @ new # post, vitals = vitals (db s)\<rparr>\<rparr>)"
    using i sp(6,7) upd by (simp add: put_machine_def Let_def saveDb_def new_def)
  moreover have "m_id new = m_id old" using sp(2) by (simp add: new_def)
  moreover have "m_name new = (case p_name req of None \<Rightarrow> m_name old | Some v \<Rightarrow> v)"
    "m_code new = (case p_code req of None \<Rightarrow> m_code old | Some v \<Rightarrow> v)"
    "m_location new = (case p_location req of None \<Rightarrow> m_location old | Some v \<Rightarrow> v)"
    "m_nextMaintenanceDate new =
             (case p_nextMaintenanceDate req of None \<Rightarrow> m_nextMaintenanceDate old | Some v \<Rightarrow> v)"
    "m_responsibleEmail new =
             (case p_responsibleEmail req of None \<Rightarrow> m_responsibleEmail old | Some v \<Rightarrow> v)"
    "m_thresholds new = (case p_thresholds req of None \<Rightarrow> m_thresholds old | Some v \<Rightarrow> v)"
    "m_lastMaintenanceReminderSent new =
             (case p_lastMaintenanceReminderSent req of
                None \<Rightarrow> m_lastMaintenanceReminderSent old | Some v \<Rightarrow> v)"
    "m_lastAbnormalAlertSent new =
             (case p_lastAbnormalAlertSent req of
                None \<Rightarrow> m_lastAbnormalAlertSent old | Some v \<Rightarrow> v)"
    "m_createdAt new = (case p_createdAt req of None \<Rightarrow> m_createdAt old | Some v \<Rightarrow> v)"
    by (simp_all add: new_def spread_def override_def)
  ultimately show ?thesis
    using sp(1,2,3) unfolding if_P[OF True]
    apply -
    apply (rule exI[of _ pre], rule exI[of _ old], rule exI[of _ post], rule exI[of _ new])
    apply (intro conjI; assumption)
    done
next
  case False
  then have "findIndex (\<lambda>m. m_id m = ident) (machines (db s)) = None"
    by (simp add: findIndex_None)
  with False show ?thesis by (simp add: put_machine_def)
qed

theorem put_machine_merge_witness:
  "(\<exists>m\<in>set (machines (db example_state)). m_id m = ''m1'')
   \<and> p_id patch_relocate = Some ''other''
   \<and> (\<exists>new. fst (put_machine ''m1'' patch_relocate example_state)
                = \<lparr>status = 200, body = MachineBody new\<rparr>
         \<and> new = machine_1\<lparr>m_location := ''Hall C'', m_thresholds := None\<rparr>)
   \<and> (\<exists>new. body (fst (put_machine ''m1'' patch_relocate example_state)) = MachineBody new
         \<and> m_id new = ''m1'')
   \<and> machines (db (snd (put_machine ''m1'' patch_relocate example_state)))
        = [machine_1\<lparr>m_location := ''Hall C'', m_thresholds := None\<rparr>, machine_2]
   \<and> \<not> (\<exists>m\<in>set (machines (db example_state)). m_id m = ''m9'')
   \<and> put_machine ''m9'' patch_relocate example_state =
       (\<lparr>status = 404, body = message ''Machine not found''\<rparr>, example_state)"
proof -
  have k: "\<exists>m\<in>set (machines (db example_state)). m_id m = ''m1''"
    by (simp add: example_defs)
  have u: "\<not> (\<exists>m\<in>set (machines (db example_state)). m_id m = ''m9'')"
    by (simp add: example_defs)
  have p: "p_id patch_relocate = Some ''other''"
    by (simp add: patch_relocate_def)
  have d: "put_machine ''m1'' patch_relocate example_state =
       (\<lparr>status = 200, body = MachineBody (machine_1\<lparr>m_location := ''Hall C'', m_thresholds := None\<rparr>)\<rparr>,
        example_state\<lparr>db := \<lparr>machines = [machine_1\<lparr>m_location := ''Hall C'', m_thresholds := None\<rparr>, machine_2],
              vitals = [vital_a, vital_b, vital_c]\<rparr>,
         db_file := \<lparr>machines = [machine_1\<lparr>m_location := ''Hall C'', m_thresholds := None\<rparr>, machine_2],
              vitals = [vital_a, vital_b, vital_c]\<rparr>\<rparr>)"
    by (simp add: put_machine_def example_defs saveDb_def spread_def override_def
        patch_relocate_def Let_def)
  from k put_machine_merge[of example_state "''m1''" patch_relocate]
  have "\<exists>new. body (fst (put_machine ''m1'' patch_relocate example_state)) = MachineBody new
                  \<and> m_id new = ''m1''"
    apply (simp only: if_True)
    apply (elim exE conjE)
    apply (simp only: fst_conv response.simps)
    apply (rule exI, rule conjI, rule refl)
    apply (simp only:)
    done
  then have i: "\<exists>new. body (fst (put_machine ''m1'' patch_relocate example_state)) = MachineBody new
                  \<and> m_id new = ''m1''" .
  from put_machine_merge[of example_state "''m9''" patch_relocate] u k d p i
  show ?thesis by simp
qed


section \<open>Sweeps of the reminder loop\<close>

lemma check_machine_spec:
  "check_machine L now m =
     (if spec_reminder_due L now m then
        (m\<lparr>m_lastMaintenanceReminderSent := Some now\<rparr>,
         [MaintenanceEmail m (of_int (the (m_nextMaintenanceDate m) - now) / (1000 * 60 * 60 * 24))])
      else (m, []))"
  by (auto simp add: check_machine_def spec_reminder_due_def Let_def days_le days_ge_one
      split: option.splits)

lemma sweep_spec:
  "sweep L now ms =
     (map (\<lambda>m. if spec_reminder_due L now m
                then m\<lparr>m_lastMaintenanceReminderSent := Some now\<rparr> else m) ms,
      map (\<lambda>m. MaintenanceEmail m
                  (of_int (the (m_nextMaintenanceDate m) - now) / (1000 * 60 * 60 * 24)))
        (filter (spec_reminder_due L now) ms))"
  by (induction ms) (simp_all add: check_machine_spec)

text \<open>
  C8: one sweep of the reminder loop sends a reminder for exactly the machines with a
  maintenance date that is at most the lookahead (7 days unless configured) away,
  overdue dates included, and with no reminder yet or the last one at least a full
  day old. These machines get \<open>lastMaintenanceReminderSent\<close> set to now, all others
  stay as they are, and the store is saved after the sweep.
\<close>

theorem maintenance_sweep:
  assumes "L = parseInt (or_string (MAINTENANCE_LOOKAHEAD_DAYS ev) ''7'')"
    and "s' = checkUpcomingMaintenance ev now s"
  shows "machines (db s') =
           map (\<lambda>m. if spec_reminder_due L now m
                      then m\<lparr>m_lastMaintenanceReminderSent := Some now\<rparr> else m)
             (machines (db s))
       \<and> sent s' = sent s @
           map (\<lambda>m. MaintenanceEmail m
                      (of_int (the (m_nextMaintenanceDate m) - now) / (1000 * 60 * 60 * 24)))
             (filter (spec_reminder_due L now) (machines (db s)))
       \<and> vitals (db s') = vitals (db s)
       \<and> db_file s' = db s'
       \<and> (MAINTENANCE_LOOKAHEAD_DAYS ev = None \<longrightarrow> L = Some 7)"
  using assms
  by (auto simp add: checkUpcomingMaintenance_def sweep_spec saveDb_def parseInt_7 Let_def)

theorem maintenance_sweep_witness:
  "MAINTENANCE_LOOKAHEAD_DAYS \<lparr>ABNORMAL_ALERT_MIN_GAP_MINUTES = None,
       MAINTENANCE_LOOKAHEAD_DAYS = None\<rparr> = None
   \<and> machines (db (checkUpcomingMaintenance
        \<lparr>ABNORMAL_ALERT_MIN_GAP_MINUTES = None, MAINTENANCE_LOOKAHEAD_DAYS = None\<rparr>
        86400000 example_state))
     = [machine_1, machine_2\<lparr>m_lastMaintenanceReminderSent := Some 86400000\<rparr>]
   \<and> sent (checkUpcomingMaintenance
        \<lparr>ABNORMAL_ALERT_MIN_GAP_MINUTES = None, MAINTENANCE_LOOKAHEAD_DAYS = None\<rparr>
        86400000 example_state)
     = [MaintenanceEmail machine_2 0]
   \<and> sent (checkUpcomingMaintenance
        \<lparr>ABNORMAL_ALERT_MIN_GAP_MINUTES = None, MAINTENANCE_LOOKAHEAD_DAYS = None\<rparr>
        259200000 example_state)
     = [MaintenanceEmail machine_1 7, MaintenanceEmail machine_2 (- 2)]"
proof -
  have a: "\<not> spec_reminder_due (Some 7) 86400000 machine_1"
    by (simp add: spec_reminder_due_def machine_1_def)
  have b: "spec_reminder_due (Some 7) 86400000 machine_2"
    by (simp add: spec_reminder_due_def machine_2_def)
  have a': "spec_reminder_due (Some 7) 259200000 machine_1"
    by (simp add: spec_reminder_due_def machine_1_def)
  have b': "spec_reminder_due (Some 7) 259200000 machine_2"
    by (simp add: spec_reminder_due_def machine_2_def)
  have c: "machines (db example_state) = [machine_1, machine_2]" "sent example_state = []"
    by (simp_all add: example_state_def example_db_def)
  have d: "m_nextMaintenanceDate machine_2 = Some 86400000"
    "m_nextMaintenanceDate machine_1 = Some 864000000"
    by (simp_all add: machine_2_def machine_1_def)
  from maintenance_sweep[OF refl refl,
         of "\<lparr>ABNORMAL_ALERT_MIN_GAP_MINUTES = None, MAINTENANCE_LOOKAHEAD_DAYS = None\<rparr>"
            86400000 example_state]
       maintenance_sweep[OF refl refl,
         of "\<lparr>ABNORMAL_ALERT_MIN_GAP_MINUTES = None, MAINTENANCE_LOOKAHEAD_DAYS = None\<rparr>"
            259200000 example_state]
  show ?thesis by (simp add: a b a' b' c d)
qed

section \<open>Ingesting a vital\<close>

lemma evaluate_flag:
  "fst (evaluate str vital th) \<longleftrightarrow>
     (\<exists>x. v_temperature vital = Some x \<and> x > t_temperature th)
     \<or> (\<exists>x. v_vibration vital = Some x \<and> x > t_vibration th)
     \<or> (\<exists>x. v_pressure vital = Some x \<and> x > t_pressure th)"
  by (auto simp add: evaluate_def check_temperature_def check_vibration_def check_pressure_def
      split: option.splits)

lemma evaluate_reasons:
  "snd (evaluate str vital th) =
     (case v_temperature vital of
        None \<Rightarrow> []
      | Some x \<Rightarrow>
          if x > t_temperature th
          then [''Temperature '' @ str x @ degree @ ''C > '' @ str (t_temperature th) @ degree @ ''C'']
          else [])
     @ (case v_vibration vital of
          None \<Rightarrow> []
        | Some x \<Rightarrow>
            if x > t_vibration th
            then [''Vibration '' @ str x @ ''mm/s > '' @ str (t_vibration th) @ ''mm/s'']
            else [])
     @ (case v_pressure vital of
          None \<Rightarrow> []
        | Some x \<Rightarrow>
            if x > t_pressure th
            then [''Pressure '' @ str x @ ''bar > '' @ str (t_pressure th) @ ''bar'']
            else [])"
  by (simp add: evaluate_def check_temperature_def check_vibration_def check_pressure_def
      split: option.splits)

text \<open>The handler in one piece, for the first machine with the requested id.\<close>

lemma post_vital_step:
  assumes "machines (db s) = pre @ machine # post" and "m_id machine = ident"
    and "\<forall>x\<in>set pre. m_id x \<noteq> ident"
    and "vital = \<lparr>v_id = new_id, v_machineId = ident,
                   v_temperature = number_or_null (q_temperature req),
                   v_vibration = number_or_null (q_vibration req),
                   v_pressure = number_or_null (q_pressure req),
                   v_timestamp = (case q_timestamp req of None \<Rightarrow> now | Some t \<Rightarrow> t)\<rparr>"
    and "th = (case m_thresholds machine of None \<Rightarrow> default_thresholds | Some t \<Rightarrow> t)"
    and "G = parseInt (or_string (ABNORMAL_ALERT_MIN_GAP_MINUTES ev) ''30'')"
    and "send \<longleftrightarrow> fst (evaluate str vital th)
                  \<and> (m_lastAbnormalAlertSent machine = None
                     \<or> gap_exceeded now (the (m_lastAbnormalAlertSent machine)) G)"
  shows "post_vital str ev now new_id ident req s =
           (\<lparr>status = 201, body = VitalResult vital (fst (evaluate str vital th))\<rparr>,
            \<lparr>db = \<lparr>machines = (if send
                                then pre @ machine\<lparr>m_lastAbnormalAlertSent := Some now\<rparr> # post
                                else pre @ machine # post),
                    vitals = vitals (db s) @ [vital]\<rparr>,
              db_file = \<lparr>machines = (if send
                                then pre @ machine\<lparr>m_lastAbnormalAlertSent := Some now\<rparr> # post
                                else pre @ machine # post),
                    vitals = vitals (db s) @ [vital]\<rparr>,
              sent = (if send
                      then sent s @ [AbnormalEmail machine vital (snd (evaluate str vital th))]
                      else sent s)\<rparr>)"
proof -
  have i: "findIndex (\<lambda>m. m_id m = ident) (machines (db s)) = Some (length pre)"
    using assms(1,2,3) by (simp add: findIndex_first)
  have n: "machines (db s) ! length pre = machine"
    using assms(1) by simp
  have u: "(machines (db s))[length pre := m'] = pre @ m' # post" for m'
    using assms(1) by simp
  obtain ab rs where e: "evaluate str vital th = (ab, rs)"
    by (cases "evaluate str vital th")
  show ?thesis
  proof (cases send)
    case True
    with assms(7) e have c: "ab"
      "m_lastAbnormalAlertSent machine = None
         \<or> gap_exceeded now (the (m_lastAbnormalAlertSent machine)) G"
      by simp_all
    from c(2) True show ?thesis
      unfolding post_vital_def i option.case n Let_def assms(4)[symmetric] assms(5)[symmetric]
        assms(6)[symmetric] e prod.case
      using c(1) assms(1)
      by (simp add: sendAlertEmail_def saveDb_def u)
  next
    case False
    with assms(7) e have c: "\<not> ab \<or> \<not> (m_lastAbnormalAlertSent machine = None
         \<or> gap_exceeded now (the (m_lastAbnormalAlertSent machine)) G)"
      by simp
    from c False show ?thesis
      unfolding post_vital_def i option.case n Let_def assms(4)[symmetric] assms(5)[symmetric]
        assms(6)[symmetric] e prod.case
      using assms(1)
      by (auto simp add: sendAlertEmail_def saveDb_def u)
  qed
qed


lemma gap_exceeded_Some:
  "gap_exceeded now t G \<longleftrightarrow> (\<exists>g. G = Some g \<and> (of_int (now - t) :: rat) / (1000 * 60) > of_int g)"
  by (cases G) (simp_all add: gap_exceeded_def)

text \<open>
  C1: when a vital is appended for a known machine with thresholds T (its own, or
  80, 10 and 200 when it has none), the returned \<open>abnormal\<close> flag is true exactly when
  temperature, vibration or pressure is a number strictly above its threshold. The
  reasons are one string per breached dimension, in the order temperature, vibration,
  pressure, each with the reading and the threshold in it; they are the reasons of the
  e-mail, if one is sent.
\<close>

theorem post_vital_abnormal_flag:
  assumes "machines (db s) = pre @ machine # post" and "m_id machine = ident"
    and "\<forall>x\<in>set pre. m_id x \<noteq> ident"
    and "T = (case m_thresholds machine of None \<Rightarrow> default_thresholds | Some t \<Rightarrow> t)"
    and "post_vital str ev now new_id ident req s = (res, s')"
  shows "\<exists>vital abnormal reasons.
           res = \<lparr>status = 201, body = VitalResult vital abnormal\<rparr>
         \<and> vitals (db s') = vitals (db s) @ [vital]
         \<and> evaluate str vital T = (abnormal, reasons)
         \<and> (abnormal \<longleftrightarrow>
               (\<exists>x. v_temperature vital = Some x \<and> x > t_temperature T)
               \<or> (\<exists>x. v_vibration vital = Some x \<and> x > t_vibration T)
               \<or> (\<exists>x. v_pressure vital = Some x \<and> x > t_pressure T))
         \<and> reasons =
               (case v_temperature vital of
                  None \<Rightarrow> []
                | Some x \<Rightarrow>
                    if x > t_temperature T
                    then [''Temperature '' @ str x @ degree @ ''C > ''
                            @ str (t_temperature T) @ degree @ ''C'']
                    else [])
               @ (case v_vibration vital of
                    None \<Rightarrow> []
                  | Some x \<Rightarrow>
                      if x > t_vibration T
                      then [''Vibration '' @ str x @ ''mm/s > '' @ str (t_vibration T) @ ''mm/s'']
                      else [])
               @ (case v_pressure vital of
                    None \<Rightarrow> []
                  | Some x \<Rightarrow>
                      if x > t_pressure T
                      then [''Pressure '' @ str x @ ''bar > '' @ str (t_pressure T) @ ''bar'']
                      else [])
         \<and> (sent s' = sent s \<or> sent s' = sent s @ [AbnormalEmail machine vital reasons])"
proof -
  define vital where "vital = \<lparr>v_id = new_id, v_machineId = ident,
                   v_temperature = number_or_null (q_temperature req),
                   v_vibration = number_or_null (q_vibration req),
                   v_pressure = number_or_null (q_pressure req),
                   v_timestamp = (case q_timestamp req of None \<Rightarrow> now | Some t \<Rightarrow> t)\<rparr>"
  define send where "send \<longleftrightarrow> fst (evaluate str vital T)
        \<and> (m_lastAbnormalAlertSent machine = None
           \<or> gap_exceeded now (the (m_lastAbnormalAlertSent machine))
                (parseInt (or_string (ABNORMAL_ALERT_MIN_GAP_MINUTES ev) ''30'')))"
  note step = post_vital_step[OF assms(1,2,3) vital_def assms(4) refl send_def]
  from step assms(5)
  have r: "res = \<lparr>status = 201, body = VitalResult vital (fst (evaluate str vital T))\<rparr>"
    and st: "sent s' = (if send
                then sent s @ [AbnormalEmail machine vital (snd (evaluate str vital T))]
                else sent s)"
    and v: "vitals (db s') = vitals (db s) @ [vital]"
    by auto
  have m: "sent s' = sent s
            \<or> sent s' = sent s @ [AbnormalEmail machine vital (snd (evaluate str vital T))]"
    unfolding st by (cases send) simp_all
  have e: "evaluate str vital T = (fst (evaluate str vital T), snd (evaluate str vital T))"
    by simp
  show ?thesis
    apply (rule exI[of _ vital], rule exI[of _ "fst (evaluate str vital T)"],
        rule exI[of _ "snd (evaluate str vital T)"])
    apply (intro conjI)
         apply (rule r)
        apply (rule v)
       apply (rule e)
      apply (rule evaluate_flag)
     apply (rule evaluate_reasons)
    apply (rule m)
    done
qed

theorem post_vital_abnormal_flag_witness:
  "machines (db example_state) = [] @ machine_1 # [machine_2]
   \<and> m_id machine_1 = ''m1''
   \<and> default_thresholds
       = (case m_thresholds machine_1 of None \<Rightarrow> default_thresholds | Some t \<Rightarrow> t)
   \<and> (\<exists>vital. fst (post_vital integer_string env_default 600 ''vd'' ''m1'' request_hot
                       example_state)
                 = \<lparr>status = 201, body = VitalResult vital True\<rparr>
         \<and> v_temperature vital = Some 90 \<and> v_vibration vital = None
         \<and> evaluate integer_string vital default_thresholds
             = (True, [''Temperature 90'' @ degree @ ''C > 80'' @ degree @ ''C'']))
   \<and> (\<exists>vital. fst (post_vital integer_string env_default 600 ''vd'' ''m1'' request_cool
                       example_state)
                 = \<lparr>status = 201, body = VitalResult vital False\<rparr>
         \<and> v_temperature vital = Some 70)"
proof -
  have a: "machines (db example_state) = [] @ machine_1 # [machine_2]"
    by (simp add: example_state_def example_db_def)
  have b: "m_id machine_1 = ''m1''"
    by (simp add: machine_1_def)
  have c: "\<forall>x\<in>set []. m_id x \<noteq> ''m1''"
    by simp
  have d: "default_thresholds
       = (case m_thresholds machine_1 of None \<Rightarrow> default_thresholds | Some t \<Rightarrow> t)"
    by (simp add: machine_1_def)
  have s90: "integer_string 90 = ''90''" and s80: "integer_string 80 = ''80''"
    by (simp_all add: integer_string_def)
  from post_vital_abnormal_flag[OF a b c d surjective_pairing,
      of integer_string env_default 600 "''vd''" request_hot]
  have h: "\<exists>vital abnormal.
       fst (post_vital integer_string env_default 600 ''vd'' ''m1'' request_hot example_state)
         = \<lparr>status = 201, body = VitalResult vital abnormal\<rparr>"
    by blast
  have hot: "fst (post_vital integer_string env_default 600 ''vd'' ''m1'' request_hot example_state)
         = \<lparr>status = 201, body = VitalResult
              \<lparr>v_id = ''vd'', v_machineId = ''m1'', v_temperature = Some 90, v_vibration = None,
                v_pressure = None, v_timestamp = 600\<rparr> True\<rparr>"
    by (simp add: post_vital_step[OF a b c refl refl refl refl] request_hot_def
        number_or_null_def evaluate_flag machine_1_def default_thresholds_def)
  have ev: "evaluate integer_string \<lparr>v_id = ''vd'', v_machineId = ''m1'', v_temperature = Some 90, v_vibration = None,
                v_pressure = None, v_timestamp = 600\<rparr> default_thresholds
             = (True, [''Temperature 90'' @ degree @ ''C > 80'' @ degree @ ''C''])"
    by (simp add: evaluate_def check_temperature_def check_vibration_def check_pressure_def
        default_thresholds_def s90 s80)
  have cool: "fst (post_vital integer_string env_default 600 ''vd'' ''m1'' request_cool example_state)
         = \<lparr>status = 201, body = VitalResult
              \<lparr>v_id = ''vd'', v_machineId = ''m1'', v_temperature = Some 70, v_vibration = None,
                v_pressure = Some 200, v_timestamp = 500\<rparr> False\<rparr>"
    by (simp add: post_vital_step[OF a b c refl refl refl refl] request_cool_def
        number_or_null_def evaluate_flag machine_1_def default_thresholds_def)
  from h a b d hot ev cool show ?thesis
    by simp
qed


text \<open>
  The whole handler is the first half followed, when it suspends, by the second.
\<close>

lemma post_vital_unsuspended:
  "post_vital str ev now new_id ident req s =
     (case post_vital_begin str ev now new_id ident req s of
        (Responded res, s') \<Rightarrow> (res, s')
      | (Awaiting k, s') \<Rightarrow> post_vital_end k s')"
proof (cases "findIndex (\<lambda>m. m_id m = ident) (machines (db s))")
  case None
  then show ?thesis
    by (simp add: post_vital_def post_vital_begin_def)
next
  case (Some idx)
  then have len: "idx < length (machines (db s))"
    using findIndex_Some by fastforce
  define vital where "vital = \<lparr>v_id = new_id, v_machineId = ident,
                   v_temperature = number_or_null (q_temperature req),
                   v_vibration = number_or_null (q_vibration req),
                   v_pressure = number_or_null (q_pressure req),
                   v_timestamp = (case q_timestamp req of None \<Rightarrow> now | Some t \<Rightarrow> t)\<rparr>"
  define th where "th = (case m_thresholds (machines (db s) ! idx) of
                           None \<Rightarrow> default_thresholds | Some t \<Rightarrow> t)"
  obtain ab rs where e: "evaluate str vital th = (ab, rs)"
    by (cases "evaluate str vital th")
  show ?thesis
  proof (cases "ab \<and> (m_lastAbnormalAlertSent (machines (db s) ! idx) = None
                  \<or> gap_exceeded now (the (m_lastAbnormalAlertSent (machines (db s) ! idx)))
                       (parseInt (or_string (ABNORMAL_ALERT_MIN_GAP_MINUTES ev) ''30'')))")
    case True
    then show ?thesis
      unfolding post_vital_def post_vital_begin_def Some option.case Let_def
        vital_def[symmetric] th_def[symmetric] e prod.case
      using len by (simp add: post_vital_end_def sendAlertEmail_def saveDb_def Let_def)
  next
    case False
    then show ?thesis
      unfolding post_vital_def post_vital_begin_def Some option.case Let_def
        vital_def[symmetric] th_def[symmetric] e prod.case
      by auto
  qed
qed

text \<open>
  Ingestions that do not overlap, with the minimum gap G in minutes (30 unless
  configured): a notification is sent only if no alert was sent before or more than G
  minutes have passed since \<open>lastAbnormalAlertSent\<close>, and it is sent whenever the vital
  is abnormal and one of the two holds; sending sets \<open>lastAbnormalAlertSent\<close> to now,
  not sending leaves the machines as they are. Two vitals for the machine, the second
  ingested after the first has responded and at most G minutes later, send at most
  one notification between them.
\<close>

lemma sequential_alert_deduplication:
  assumes m: "machines (db s) = pre @ machine # post" "m_id machine = ident"
      "\<forall>x\<in>set pre. m_id x \<noteq> ident"
    and G: "G = parseInt (or_string (ABNORMAL_ALERT_MIN_GAP_MINUTES ev) ''30'')"
    and p1: "post_vital str ev now new_id ident req s = (res, s')"
    and p2: "post_vital str ev later next_id ident req' s' = (res', s'')"
  shows "(sent s' \<noteq> sent s \<longrightarrow>
            (m_lastAbnormalAlertSent machine = None
             \<or> (\<exists>t g. m_lastAbnormalAlertSent machine = Some t \<and> G = Some g
                    \<and> (of_int (now - t) :: rat) / (1000 * 60) > of_int g))
            \<and> (\<exists>e. sent s' = sent s @ [e])
            \<and> machines (db s') = pre @ machine\<lparr>m_lastAbnormalAlertSent := Some now\<rparr> # post)
       \<and> (sent s' = sent s \<longrightarrow> machines (db s') = machines (db s))
       \<and> ((\<exists>v. body res = VitalResult v True)
            \<and> (m_lastAbnormalAlertSent machine = None
                \<or> (\<exists>t g. m_lastAbnormalAlertSent machine = Some t \<and> G = Some g
                       \<and> (of_int (now - t) :: rat) / (1000 * 60) > of_int g))
            \<longrightarrow> sent s' \<noteq> sent s)
       \<and> (G = Some gap \<and> (of_int (later - now) :: rat) / (1000 * 60) \<le> of_int gap
            \<longrightarrow> length (sent s'') \<le> length (sent s) + 1)
       \<and> (ABNORMAL_ALERT_MIN_GAP_MINUTES ev = None \<longrightarrow> G = Some 30)"
proof -
  define vital1 where "vital1 = \<lparr>v_id = new_id, v_machineId = ident,
                   v_temperature = number_or_null (q_temperature req),
                   v_vibration = number_or_null (q_vibration req),
                   v_pressure = number_or_null (q_pressure req),
                   v_timestamp = (case q_timestamp req of None \<Rightarrow> now | Some t \<Rightarrow> t)\<rparr>"
  define T where "T = (case m_thresholds machine of None \<Rightarrow> default_thresholds | Some t \<Rightarrow> t)"
  define due1 where "due1 \<longleftrightarrow> m_lastAbnormalAlertSent machine = None
                     \<or> gap_exceeded now (the (m_lastAbnormalAlertSent machine)) G"
  define send1 where "send1 \<longleftrightarrow> fst (evaluate str vital1 T) \<and> due1"
  have send1: "send1 \<longleftrightarrow> fst (evaluate str vital1 T)
                  \<and> (m_lastAbnormalAlertSent machine = None
                     \<or> gap_exceeded now (the (m_lastAbnormalAlertSent machine)) G)"
    by (simp add: send1_def due1_def)
  define machine' where
    "machine' = (if send1 then machine\<lparr>m_lastAbnormalAlertSent := Some now\<rparr> else machine)"
  from post_vital_step[OF m vital1_def T_def G send1] p1
  have r1: "res = \<lparr>status = 201, body = VitalResult vital1 (fst (evaluate str vital1 T))\<rparr>"
    and st1: "sent s' = (if send1
                then sent s @ [AbnormalEmail machine vital1 (snd (evaluate str vital1 T))]
                else sent s)"
    and ms1: "machines (db s') = pre @ machine' # post"
    by (auto simp add: machine'_def)
  have due1_iff: "due1 \<longleftrightarrow> (m_lastAbnormalAlertSent machine = None
             \<or> (\<exists>t g. m_lastAbnormalAlertSent machine = Some t \<and> G = Some g
                    \<and> (of_int (now - t) :: rat) / (1000 * 60) > of_int g))"
    by (cases "m_lastAbnormalAlertSent machine") (simp_all add: due1_def gap_exceeded_Some)
  have changed: "sent s' \<noteq> sent s \<longleftrightarrow> send1"
    by (simp add: st1)
  have A: "sent s' \<noteq> sent s \<longrightarrow>
            (m_lastAbnormalAlertSent machine = None
             \<or> (\<exists>t g. m_lastAbnormalAlertSent machine = Some t \<and> G = Some g
                    \<and> (of_int (now - t) :: rat) / (1000 * 60) > of_int g))
            \<and> (\<exists>e. sent s' = sent s @ [e])
            \<and> machines (db s') = pre @ machine\<lparr>m_lastAbnormalAlertSent := Some now\<rparr> # post"
    unfolding changed due1_iff[symmetric]
    by (simp add: send1_def st1 ms1 machine'_def)
  have B: "sent s' = sent s \<longrightarrow> machines (db s') = machines (db s)"
    using changed by (auto simp add: ms1 machine'_def m(1))
  have C: "(\<exists>v. body res = VitalResult v True)
            \<and> (m_lastAbnormalAlertSent machine = None
                \<or> (\<exists>t g. m_lastAbnormalAlertSent machine = Some t \<and> G = Some g
                       \<and> (of_int (now - t) :: rat) / (1000 * 60) > of_int g))
            \<longrightarrow> sent s' \<noteq> sent s"
    unfolding changed due1_iff[symmetric]
    by (simp add: r1 send1_def)
  have D: "G = Some gap \<and> (of_int (later - now) :: rat) / (1000 * 60) \<le> of_int gap
            \<longrightarrow> length (sent s'') \<le> length (sent s) + 1"
  proof
    assume h: "G = Some gap \<and> (of_int (later - now) :: rat) / (1000 * 60) \<le> of_int gap"
    define vital2 where "vital2 = \<lparr>v_id = next_id, v_machineId = ident,
                   v_temperature = number_or_null (q_temperature req'),
                   v_vibration = number_or_null (q_vibration req'),
                   v_pressure = number_or_null (q_pressure req'),
                   v_timestamp = (case q_timestamp req' of None \<Rightarrow> later | Some t \<Rightarrow> t)\<rparr>"
    define T2 where
      "T2 = (case m_thresholds machine' of None \<Rightarrow> default_thresholds | Some t \<Rightarrow> t)"
    define send2 where "send2 \<longleftrightarrow> fst (evaluate str vital2 T2)
                  \<and> (m_lastAbnormalAlertSent machine' = None
                     \<or> gap_exceeded later (the (m_lastAbnormalAlertSent machine')) G)"
    have id': "m_id machine' = ident"
      using m(2) by (simp add: machine'_def)
    from post_vital_step[OF ms1 id' m(3) vital2_def T2_def G send2_def] p2
    have st2: "sent s'' = (if send2
                then sent s' @ [AbnormalEmail machine' vital2 (snd (evaluate str vital2 T2))]
                else sent s')"
      by auto
    have "\<not> send2" if "send1"
    proof -
      from that have "m_lastAbnormalAlertSent machine' = Some now"
        by (simp add: machine'_def)
      moreover have "\<not> gap_exceeded later now G"
        using h by (simp add: gap_exceeded_def)
      ultimately show ?thesis
        by (simp add: send2_def)
    qed
    then show "length (sent s'') \<le> length (sent s) + 1"
      by (cases send1; cases send2) (simp_all add: st1 st2)
  qed
  have E: "ABNORMAL_ALERT_MIN_GAP_MINUTES ev = None \<longrightarrow> G = Some 30"
    by (simp add: G parseInt_30)
  from A B C D E show ?thesis
    by (intro conjI)
qed


lemma sequential_alert_deduplication_example:
  "machines (db example_state) = [] @ machine_1 # [machine_2]
   \<and> m_id machine_1 = ''m1''
   \<and> parseInt (or_string (ABNORMAL_ALERT_MIN_GAP_MINUTES env_default) ''30'') = Some 30
   \<and> m_lastAbnormalAlertSent machine_1 = None
   \<and> length (sent example_state) = 0
   \<and> length (sent state_alerted) = 1
   \<and> map m_lastAbnormalAlertSent (machines (db state_alerted)) = [Some 600000, None]
   \<and> (of_int (1200000 - 600000) :: rat) / (1000 * 60) \<le> of_int 30
   \<and> length (sent (snd (post_vital integer_string env_default 1200000 ''ve'' ''m1'' request_hot
                           state_alerted))) = 1
   \<and> (of_int (2460000 - 600000) :: rat) / (1000 * 60) > of_int 30
   \<and> length (sent (snd (post_vital integer_string env_default 2460000 ''ve'' ''m1'' request_hot
                           state_alerted))) = 2"
proof -
  have a: "machines (db example_state) = [] @ machine_1 # [machine_2]"
    by (simp add: example_state_def example_db_def)
  have b: "m_id machine_1 = ''m1''"
    by (simp add: machine_1_def)
  have c: "\<forall>x\<in>set []. m_id x \<noteq> ''m1''"
    by simp
  have g: "parseInt (or_string (ABNORMAL_ALERT_MIN_GAP_MINUTES env_default) ''30'') = Some 30"
    by (simp add: env_default_def parseInt_30)
  have n: "m_lastAbnormalAlertSent machine_1 = None"
    by (simp add: machine_1_def)
  have e0: "length (sent example_state) = 0"
    by (simp add: example_state_def)
  have hot: "fst (evaluate integer_string
                \<lparr>v_id = i, v_machineId = ''m1'',
                  v_temperature = number_or_null (q_temperature request_hot),
                  v_vibration = number_or_null (q_vibration request_hot),
                  v_pressure = number_or_null (q_pressure request_hot),
                  v_timestamp = t\<rparr> default_thresholds)" for i t
    by (simp add: evaluate_flag request_hot_def number_or_null_def default_thresholds_def)
  have th: "(case m_thresholds machine_1 of None \<Rightarrow> default_thresholds | Some t \<Rightarrow> t)
              = default_thresholds"
    by (simp add: machine_1_def)
  have ts: "(case q_timestamp request_hot of None \<Rightarrow> t | Some t' \<Rightarrow> t') = t" for t
    by (simp add: request_hot_def)
  have a1: "machines (db state_alerted)
              = [] @ machine_1\<lparr>m_lastAbnormalAlertSent := Some 600000\<rparr> # [machine_2]"
    and e1: "length (sent state_alerted) = 1"
    unfolding state_alerted_def
    by (simp_all add: post_vital_step[OF a b c refl refl refl refl] th ts hot n e0)
  have b1: "m_id (machine_1\<lparr>m_lastAbnormalAlertSent := Some 600000\<rparr>) = ''m1''"
    by (simp add: machine_1_def)
  have th1: "(case m_thresholds (machine_1\<lparr>m_lastAbnormalAlertSent := Some 600000\<rparr>) of
                None \<Rightarrow> default_thresholds | Some t \<Rightarrow> t) = default_thresholds"
    by (simp add: machine_1_def)
  have l1: "map m_lastAbnormalAlertSent (machines (db state_alerted)) = [Some 600000, None]"
    by (simp add: a1 machine_2_def)
  have w: "(of_int (1200000 - 600000) :: rat) / (1000 * 60) \<le> of_int 30"
    by simp
  have x: "(of_int (2460000 - 600000) :: rat) / (1000 * 60) > of_int 30"
    by simp
  have e3: "length (sent (snd (post_vital integer_string env_default 2460000 ''ve'' ''m1''
                                  request_hot state_alerted))) = 2"
    by (simp add: post_vital_step[OF a1 b1 c refl refl refl refl] th th1 ts hot e1 g
        gap_exceeded_def)
  from sequential_alert_deduplication[where str = integer_string and ev = env_default
        and now = 600000 and new_id = "''vd''" and req = request_hot
        and later = 1200000 and next_id = "''ve''" and req' = request_hot and gap = 30,
      OF a b c refl surjective_pairing surjective_pairing]
    g w e0
  have "length (sent (snd (post_vital integer_string env_default 1200000 ''ve'' ''m1'' request_hot
                           state_alerted))) \<le> 1"
    by (simp add: state_alerted_def)
  moreover have "length (sent (snd (post_vital integer_string env_default 1200000 ''ve'' ''m1''
                                  request_hot state_alerted))) \<ge> 1"
    by (simp add: post_vital_step[OF a1 b1 c refl refl refl refl] th th1 ts hot e1 g
        gap_exceeded_def)
  ultimately have e2: "length (sent (snd (post_vital integer_string env_default 1200000 ''ve''
                                  ''m1'' request_hot state_alerted))) = 1"
    by linarith
  from a b g n e0 e1 l1 w e2 x e3 show ?thesis
    by (intro conjI)
qed

text \<open>
  C2: two abnormal vitals for the same machine within the minimum gap trigger at most
  one notification. On the example store (machine \<open>m1\<close> never alerted, gap 30 minutes)
  two vitals with temperature 90 are ingested 1 ms apart, the second request served
  while the first awaits its mail: the gap test of the second runs before the first
  has stamped \<open>lastAbnormalAlertSent\<close>, and two notifications are sent. The same two
  requests served one after the other send one.
\<close>

theorem overlapping_vitals_alert_twice:
  "(of_int (600001 - 600000) :: rat) / (1000 * 60) \<le> 30
   \<and> parseInt (or_string (ABNORMAL_ALERT_MIN_GAP_MINUTES env_default) ''30'') = Some 30
   \<and> length (sent example_state) = 0
   \<and> length (sent (post_vital_overlapped integer_string env_default ''m1''
                      600000 ''vd'' request_hot 600001 ''ve'' request_hot example_state)) = 2
   \<and> length (sent (snd (post_vital integer_string env_default 600001 ''ve'' ''m1'' request_hot
                (snd (post_vital integer_string env_default 600000 ''vd'' ''m1'' request_hot
                        example_state))))) = 1"
  by (simp add: post_vital_overlapped_def post_vital_begin_def post_vital_end_def post_vital_def
      example_defs env_default_def request_hot_def parse_defs number_or_null_def
      default_thresholds_def evaluate_def check_temperature_def check_vibration_def
      check_pressure_def gap_exceeded_def sendAlertEmail_def saveDb_def Let_def)

end
